theory Spec2Isabelle
  imports Complex_Main "HOL-Library.Sublist"
begin

section \<open>The Kafka agent of \<^verbatim>\<open>src/backend/main.py\<close>\<close>

text \<open>
  The service has one endpoint, \<^verbatim>\<open>kafka_agent\<close>. It asks a completion service for a JSON
  object holding Python code and an explanation, runs the code, looks for a topic name in
  the code text and remembers it in the module-level variable \<^verbatim>\<open>last_topic\<close>.

  Python strings are modelled as \<^typ>\<open>string\<close>: lists of 8-bit characters, read as the
  code points 0 to 255. What is not part of the repository (the completion service,
  \<^verbatim>\<open>json.loads\<close>, the interpreter behind \<^verbatim>\<open>exec\<close> and the server's standard output) is a
  field of a record \<open>host\<close>, so that every theorem below holds for any behaviour of theirs.
\<close>

subsection \<open>String methods used by the source\<close>

text \<open>
  \<^verbatim>\<open>str.isspace\<close> on a single character. Among the code points below 256 the white space
  characters are 9 to 13, 28 to 32, 133 and 160. The \<^verbatim>\<open>\s\<close> of \<^verbatim>\<open>re\<close> on a \<^verbatim>\<open>str\<close> pattern is
  the same class.
\<close>

definition py_isspace :: "char \<Rightarrow> bool" where
  "py_isspace c =
     (let n = (of_char c :: nat)
      in (9 \<le> n \<and> n \<le> 13) \<or> (28 \<le> n \<and> n \<le> 32) \<or> n = 133 \<or> n = 160)"

text \<open>\<^verbatim>\<open>s.strip(chars)\<close> removes, at both ends, the characters that belong to \<^verbatim>\<open>chars\<close>.\<close>

definition strip_where :: "(char \<Rightarrow> bool) \<Rightarrow> string \<Rightarrow> string" where
  "strip_where P s = rev (dropWhile P (rev (dropWhile P s)))"

text \<open>\<^verbatim>\<open>s.strip()\<close>: white space removed at both ends.\<close>

definition py_strip :: "string \<Rightarrow> string" where
  "py_strip s = strip_where py_isspace s"

text \<open>\<^verbatim>\<open>s.strip("`")\<close>: backticks removed at both ends.\<close>

definition strip_backticks :: "string \<Rightarrow> string" where
  "strip_backticks s = strip_where (\<lambda>c. c = CHR ''`'') s"

text \<open>\<^verbatim>\<open>str.lower\<close> on a character below 256: A to Z and the accented capitals 192 to 222
  (215, the multiplication sign, apart) move up by 32.\<close>

definition py_lower_char :: "char \<Rightarrow> char" where
  "py_lower_char c =
     (let n = (of_char c :: nat)
      in if (65 \<le> n \<and> n \<le> 90) \<or> (192 \<le> n \<and> n \<le> 222 \<and> n \<noteq> 215)
         then char_of (n + 32) else c)"

definition py_lower :: "string \<Rightarrow> string" where
  "py_lower s = map py_lower_char s"

definition startswith :: "string \<Rightarrow> string \<Rightarrow> bool" where
  "startswith s p = prefix p s"

definition endswith :: "string \<Rightarrow> string \<Rightarrow> bool" where
  "endswith s p = suffix p s"

subsection \<open>The topic extractor\<close>

text \<open>
  \<^verbatim>\<open>re.search(r'topic_name\s*=\s*["\']([^"\']+)["\']', code)\<close>.

  \<open>is_quote\<close> is the class \<^verbatim>\<open>["\']\<close>. \<open>topic_pattern_at\<close> matches the pattern at the start of
  its argument and returns group 1. The greedy repetitions need no backtracking here:
  each \<^verbatim>\<open>\s*\<close> is followed by a character that is not white space, and \<^verbatim>\<open>[^"\']+\<close> is
  followed by a quote, so only the longest run can be continued. \<open>topic_pattern_search\<close>
  tries every start position from the left, as \<^verbatim>\<open>re.search\<close> does.
\<close>

definition is_quote :: "char \<Rightarrow> bool" where
  "is_quote c = (c = CHR 0x22 \<or> c = CHR 0x27)"

definition topic_pattern_at :: "string \<Rightarrow> string option" where
  "topic_pattern_at s =
     (if prefix ''topic_name'' s then
        (case dropWhile py_isspace (drop 10 s) of
           [] \<Rightarrow> None
         | e # r2 \<Rightarrow>
             if e = CHR ''='' then
               (case dropWhile py_isspace r2 of
                  [] \<Rightarrow> None
                | q # r4 \<Rightarrow>
                    if is_quote q then
                      (let lit = takeWhile (\<lambda>c. \<not> is_quote c) r4;
                           r5 = dropWhile (\<lambda>c. \<not> is_quote c) r4
                       in if lit \<noteq> [] \<and> r5 \<noteq> [] then Some lit else None)
                    else None)
             else None)
      else None)"

fun topic_pattern_search :: "string \<Rightarrow> string option" where
  "topic_pattern_search [] = topic_pattern_at []"
| "topic_pattern_search (c # cs) =
     (case topic_pattern_at (c # cs) of
        Some lit \<Rightarrow> Some lit
      | None \<Rightarrow> topic_pattern_search cs)"

text \<open>\<^verbatim>\<open>return match.group(1) if match else None\<close>\<close>

definition extract_topic_from_code :: "string \<Rightarrow> string option" where
  "extract_topic_from_code code = topic_pattern_search code"

text \<open>
  The extractor's contract in the words of the specification: an assignment to the
  recognised identifier whose right-hand side is a single- or double-quoted literal.
  \<open>topic_assignment_at code i lit\<close> says that such a text starts at position \<open>i\<close> of
  \<open>code\<close> and that \<open>lit\<close> stands between its quotes.
\<close>

definition topic_assignment :: "string \<Rightarrow> string \<Rightarrow> bool" where
  "topic_assignment s lit =
     (\<exists>w1 w2 q1 q2 rest.
        s = ''topic_name'' @ w1 @ ''='' @ w2 @ [q1] @ lit @ [q2] @ rest \<and>
        list_all py_isspace w1 \<and> list_all py_isspace w2 \<and>
        is_quote q1 \<and> is_quote q2 \<and>
        lit \<noteq> [] \<and> list_all (\<lambda>c. \<not> is_quote c) lit)"

definition topic_assignment_at :: "string \<Rightarrow> nat \<Rightarrow> string \<Rightarrow> bool" where
  "topic_assignment_at code i lit = (i \<le> length code \<and> topic_assignment (drop i code) lit)"

text \<open>The assignment the specification uses as its example.\<close>

definition orders_assignment :: string where
  \<open>orders_assignment = ''topic_name = "orders"''\<close>

subsection \<open>Python values, exceptions and outcomes\<close>

text \<open>
  What \<^verbatim>\<open>json.loads\<close> can return. A \<^verbatim>\<open>dict\<close> is the association list of its items;
  \<^verbatim>\<open>None\<close> is \<open>JNull\<close>.
\<close>

datatype json =
    JNull
  | JBool bool
  | JInt int
  | JFloat real
  | JStr string
  | JArr "json list"
  | JObj "(string \<times> json) list"

text \<open>The truth value Python gives a decoded value in \<^verbatim>\<open>if not code\<close>.\<close>

fun truthy :: "json \<Rightarrow> bool" where
  "truthy JNull = False"
| "truthy (JBool b) = b"
| "truthy (JInt n) = (n \<noteq> 0)"
| "truthy (JFloat x) = (x \<noteq> 0)"
| "truthy (JStr s) = (s \<noteq> [])"
| "truthy (JArr xs) = (xs \<noteq> [])"
| "truthy (JObj kvs) = (kvs \<noteq> [])"

fun py_type_name :: "json \<Rightarrow> string" where
  "py_type_name JNull = ''NoneType''"
| "py_type_name (JBool b) = ''bool''"
| "py_type_name (JInt n) = ''int''"
| "py_type_name (JFloat x) = ''float''"
| "py_type_name (JStr s) = ''str''"
| "py_type_name (JArr xs) = ''list''"
| "py_type_name (JObj kvs) = ''dict''"

text \<open>\<^verbatim>\<open>d.get(key, default)\<close> on the items of a \<^verbatim>\<open>dict\<close>.\<close>

definition dict_get :: "(string \<times> json) list \<Rightarrow> string \<Rightarrow> json \<Rightarrow> json" where
  "dict_get items k dflt = (case map_of items k of Some v \<Rightarrow> v | None \<Rightarrow> dflt)"

text \<open>
  An exception is described by what the source observes of it: whether an
  \<^verbatim>\<open>except Exception\<close> clause catches it, and what \<^verbatim>\<open>str(e)\<close> does. \<open>PyBaseException\<close>
  stands for \<^verbatim>\<open>SystemExit\<close>, \<^verbatim>\<open>KeyboardInterrupt\<close> and \<^verbatim>\<open>GeneratorExit\<close>, which are not
  subclasses of \<^verbatim>\<open>Exception\<close>. Taking the string form of an object runs its \<^verbatim>\<open>__str__\<close>,
  which returns a string (\<open>Gives\<close>) or raises in turn (\<open>Throws\<close>).
\<close>

datatype pyexc =
    HTTPException nat string
  | PyException str_result
  | PyBaseException str_result
and str_result =
    Gives string
  | Throws pyexc

text \<open>A call returns a value, raises, or never returns.\<close>

datatype 'a outcome = Returns 'a | Raises pyexc | Hangs

fun is_Exception :: "pyexc \<Rightarrow> bool" where
  "is_Exception (HTTPException status detail) = True"
| "is_Exception (PyException s) = True"
| "is_Exception (PyBaseException s) = False"

text \<open>Decimal digits of a status code.\<close>

fun decimal :: "nat \<Rightarrow> string" where
  "decimal n =
     (if n < 10 then [char_of (48 + n)]
      else decimal (n div 10) @ [char_of (48 + n mod 10)])"

declare decimal.simps [simp del]

text \<open>
  \<^verbatim>\<open>str(e)\<close>. FastAPI's \<^verbatim>\<open>HTTPException\<close> is Starlette's, whose \<^verbatim>\<open>__str__\<close> returns
  \<^verbatim>\<open>f"{self.status_code}: {self.detail}"\<close>.
\<close>

fun exc_str :: "pyexc \<Rightarrow> str_result" where
  "exc_str (HTTPException status detail) = Gives (decimal status @ '': '' @ detail)"
| "exc_str (PyException s) = s"
| "exc_str (PyBaseException s) = s"

subsection \<open>The collaborators outside the repository\<close>

text \<open>
  \<^item> \<open>bootstrap_servers\<close>: the value of \<^verbatim>\<open>BOOTSTRAP_SERVERS\<close> read from the environment.
  \<^item> \<open>chat_completion sys usr\<close>: the call \<^verbatim>\<open>openai.chat.completions.create\<close> with the
    system prompt \<open>sys\<close> and the user prompt \<open>usr\<close>, followed by
    \<^verbatim>\<open>resp.choices[0].message.content\<close>, which is a string or \<^verbatim>\<open>None\<close>.
  \<^item> \<open>json_loads\<close>: \<^verbatim>\<open>json.loads\<close>; \<open>None\<close> when it raises (every exception it raises is
    an \<^verbatim>\<open>Exception\<close>).
  \<^item> \<open>py_exec code\<close>: \<^verbatim>\<open>exec(code, {"__builtins__": __builtins__}, local_vars)\<close> under
    \<^verbatim>\<open>redirect_stdout(buffer)\<close>. When it returns, the outcome holds \<^verbatim>\<open>buffer.getvalue()\<close>
    and \<^verbatim>\<open>local_vars\<close>, each variable given by what \<^verbatim>\<open>str\<close> does on its value.
  \<^item> \<open>exec_last_topic code v\<close>: the value that the module's global \<^verbatim>\<open>last_topic\<close> has when
    that \<^verbatim>\<open>exec\<close> stops, by returning or by raising, if it had the value \<open>v\<close> when the
    \<^verbatim>\<open>exec\<close> started. The executed code gets a fresh namespace, but it can reach the
    globals of the module that called it, for instance through
    \<^verbatim>\<open>sys._getframe(1).f_globals\<close>, and assign \<^verbatim>\<open>last_topic\<close> there.
  \<^item> \<open>stdout_write s\<close>: \<^verbatim>\<open>sys.stdout.write(s)\<close> on the server's own standard output;
    \<open>None\<close> when the write succeeds, the exception otherwise (a character that the
    encoding of the stream cannot represent, a closed stream).
\<close>

record host =
  bootstrap_servers :: string
  chat_completion :: "string \<Rightarrow> string \<Rightarrow> string option outcome"
  json_loads :: "string \<Rightarrow> json option"
  py_exec :: "string \<Rightarrow> (string \<times> (string \<rightharpoonup> str_result)) outcome"
  exec_last_topic :: "string \<Rightarrow> string option \<Rightarrow> string option"
  stdout_write :: "string \<Rightarrow> pyexc option"

text \<open>
  \<^verbatim>\<open>print\<close> outside the sandbox writes its arguments one by one, a space between two of
  them and a line end after the last. The argument of \<open>py_print\<close> is the list of the
  strings written, in order; the first write that fails raises.
\<close>

fun py_print :: "host \<Rightarrow> string list \<Rightarrow> pyexc option" where
  "py_print H [] = None"
| "py_print H (s # ss) =
     (case stdout_write H s of
        Some e \<Rightarrow> Some e
      | None \<Rightarrow> py_print H ss)"

subsection \<open>Asking for code: \<^verbatim>\<open>ask_openai_for_code\<close>\<close>

text \<open>\<^verbatim>\<open>str(remembered_topic)\<close> inside the f-string.\<close>

definition str_of_topic :: "string option \<Rightarrow> string" where
  "str_of_topic remembered_topic =
     (case remembered_topic of None \<Rightarrow> ''None'' | Some t \<Rightarrow> t)"

text \<open>The f-string of lines 59 to 87.\<close>

definition system_prompt :: "string \<Rightarrow> string option \<Rightarrow> string" where
  \<open>system_prompt BOOTSTRAP_SERVERS remembered_topic =
     ''\<newline>'' @
     ''    You are a Kafka assistant agent.\<newline>'' @
     ''    The user will ask questions about Kafka topics, configs, producing and consuming messages.\<newline>'' @
     ''\<newline>'' @
     ''    Rules:\<newline>'' @
     ''    - Respond ONLY with valid JSON object containing exactly two keys: "code" and "explanation".\<newline>'' @
     ''    - Example response:\<newline>'' @
     ''      {"code": "from confluent_kafka.admin import AdminClient...", "explanation": "Your topic test-topic has retention 7 days"}\<newline>'' @
     ''    - "code" must be valid Python using confluent_kafka.\<newline>'' @
     ''    - "explanation" must be a conversational English answer.\<newline>'' @
     ''    - Assume bootstrap servers='' @ [CHR 0x27] @ BOOTSTRAP_SERVERS @ [CHR 0x27] @ ''.\<newline>'' @
     ''    - If the user does not mention a topic but we have a remembered topic ('' @
       str_of_topic remembered_topic @ ''), reuse that.\<newline>'' @
     ''    - If no remembered topic exists, politely ask the user to provide a topic name.\<newline>'' @
     ''    - To fetch topic configs (like retention.ms), ALWAYS use:\<newline>'' @
     ''        from confluent_kafka.admin import AdminClient, ConfigResource\<newline>'' @
     ''        admin = AdminClient({"bootstrap.servers": "'' @ BOOTSTRAP_SERVERS @ ''"})\<newline>'' @
     ''        cr = ConfigResource("topic", topic_name)\<newline>'' @
     ''        futures = admin.describe_configs([cr])\<newline>'' @
     ''        for res, fut in futures.items():\<newline>'' @
     ''            cfg = fut.result()\<newline>'' @
     ''            entry = cfg.get("retention.ms")\<newline>'' @
     ''            if entry and entry.value:\<newline>'' @
     ''                retention_ms = int(entry.value)\<newline>'' @
     ''                days = retention_ms / (1000*60*60*24)\<newline>'' @
     ''                hours = retention_ms / (1000*60*60)\<newline>'' @
     ''                print(f"Retention for {topic_name}: {days:.2f} days ({hours:.2f} hours)")\<newline>'' @
     ''            else:\<newline>'' @
     ''                print(f"Retention not explicitly set for {topic_name}")\<newline>'' @
     ''    ''\<close>

text \<open>
  Lines 102 to 107, on the stripped content:
  \<^verbatim>\<open>
  if raw.startswith("```"):
      raw = raw.strip("`")
      if raw.lower().startswith("json"):
          raw = raw[4:].strip()
      if raw.endswith("```"):
          raw = raw[:-3].strip()
  \<close>
\<close>

definition strip_fence :: "string \<Rightarrow> string" where
  "strip_fence raw =
     (if startswith raw ''```'' then
        (let raw1 = strip_backticks raw;
             raw2 = (if startswith (py_lower raw1) ''json'' then py_strip (drop 4 raw1) else raw1)
         in if endswith raw2 ''```'' then py_strip (take (length raw2 - 3) raw2) else raw2)
      else raw)"

text \<open>The text handed to \<^verbatim>\<open>json.loads\<close>: \<^verbatim>\<open>content.strip()\<close>, then the fence handling.\<close>

definition cleaned :: "string \<Rightarrow> string" where
  "cleaned content = strip_fence (py_strip content)"

text \<open>
  Lines 98 to 112 without the debug line: from the content of the completion to the
  decoded value.
\<close>

definition decode_completion :: "host \<Rightarrow> string \<Rightarrow> json outcome" where
  "decode_completion H content =
     (let raw = cleaned content
      in case json_loads H raw of
           Some v \<Rightarrow> Returns v
         | None \<Rightarrow> Raises (HTTPException 500 (''AI response was not valid JSON: '' @ raw)))"

text \<open>
  Lines 89 to 112. \<^verbatim>\<open>resp.choices[0].message.content.strip()\<close> raises an \<^verbatim>\<open>AttributeError\<close>
  when the content is \<^verbatim>\<open>None\<close>. Line 99, \<^verbatim>\<open>print("AI RAW RESPONSE:", raw)\<close>, runs on the
  stripped content before the fence handling and outside the \<^verbatim>\<open>try\<close> of line 109: an
  exception of that \<^verbatim>\<open>print\<close> leaves the function.
\<close>

definition ask_openai_for_code :: "host \<Rightarrow> string \<Rightarrow> string option \<Rightarrow> json outcome" where
  "ask_openai_for_code H prompt remembered_topic =
     (case chat_completion H (system_prompt (bootstrap_servers H) remembered_topic) prompt of
        Hangs \<Rightarrow> Hangs
      | Raises e \<Rightarrow> Raises e
      | Returns None \<Rightarrow>
          Raises (PyException (Gives ([CHR 0x27] @ ''NoneType'' @ [CHR 0x27]
                                      @ '' object has no attribute ''
                                      @ [CHR 0x27] @ ''strip'' @ [CHR 0x27])))
      | Returns (Some content) \<Rightarrow>
          (case py_print H [''AI RAW RESPONSE:'', '' '', py_strip content, ''\<newline>''] of
             Some e \<Rightarrow> Raises e
           | None \<Rightarrow> decode_completion H content))"

subsection \<open>The sandbox executor: \<^verbatim>\<open>run_code_safely\<close>\<close>

text \<open>
  The built-in \<^verbatim>\<open>exec\<close> on whatever the handler passes: anything but a string is refused
  with a \<^verbatim>\<open>TypeError\<close> (a decoded JSON value is never \<^verbatim>\<open>bytes\<close> or a code object).
\<close>

definition builtin_exec ::
  "host \<Rightarrow> json \<Rightarrow> (string \<times> (string \<rightharpoonup> str_result)) outcome" where
  "builtin_exec H code =
     (case code of
        JStr src \<Rightarrow> py_exec H src
      | _ \<Rightarrow> Raises (PyException (Gives ''exec() arg 1 must be a string, bytes or code object'')))"

text \<open>
  The clause \<^verbatim>\<open>except Exception as e: return f"Error while executing AI code: {e}"\<close>.
  It does not catch what is not an \<^verbatim>\<open>Exception\<close>, and an exception raised by \<^verbatim>\<open>str(e)\<close>
  inside the clause leaves the function.
\<close>

definition execution_error :: "pyexc \<Rightarrow> string outcome" where
  "execution_error e =
     (if is_Exception e then
        (case exc_str e of
           Gives msg \<Rightarrow> Returns (''Error while executing AI code: '' @ msg)
         | Throws e' \<Rightarrow> Raises e')
      else Raises e)"


text \<open>
  \<^verbatim>\<open>
  output = buffer.getvalue().strip() or str(local_vars.get("result", "<no result>"))
  return output
  \<close>
  inside the \<^verbatim>\<open>try\<close>, so an exception of \<^verbatim>\<open>str\<close> on the result variable is handled by the
  same clause.
\<close>

definition run_code_safely :: "host \<Rightarrow> json \<Rightarrow> string outcome" where
  "run_code_safely H code =
     (case builtin_exec H code of
        Hangs \<Rightarrow> Hangs
      | Raises e \<Rightarrow> execution_error e
      | Returns (captured, local_vars) \<Rightarrow>
          (let output = py_strip captured
           in if output \<noteq> [] then Returns output
              else (case (case local_vars ''result'' of
                            None \<Rightarrow> Gives ''<no result>''
                          | Some v \<Rightarrow> v) of
                      Gives str \<Rightarrow> Returns str
                    | Throws e \<Rightarrow> execution_error e)))"

subsection \<open>The endpoint: \<^verbatim>\<open>kafka_agent\<close>\<close>

datatype PromptRequest = PromptRequest (the_prompt: string)

record payload =
  prompt :: string
  topic_in_use :: "string option"
  explanation :: json
  executed_code :: json
  result :: string

text \<open>
  The outer clause \<^verbatim>\<open>except Exception as e: raise HTTPException(status_code=500, detail=str(e))\<close>.
  It also catches the \<^verbatim>\<open>HTTPException\<close>s raised inside the \<^verbatim>\<open>try\<close>.
\<close>

definition request_error :: "pyexc \<Rightarrow> payload outcome" where
  "request_error e =
     (if is_Exception e then
        (case exc_str e of
           Gives msg \<Rightarrow> Raises (HTTPException 500 msg)
         | Throws e' \<Rightarrow> Raises e')
      else Raises e)"

text \<open>\<^verbatim>\<open>ai_output.get\<close> exists on a \<^verbatim>\<open>dict\<close> only.\<close>

definition no_get_attribute :: "json \<Rightarrow> pyexc" where
  "no_get_attribute v =
     PyException (Gives ([CHR 0x27] @ py_type_name v @ [CHR 0x27]
                         @ '' object has no attribute '' @ [CHR 0x27] @ ''get'' @ [CHR 0x27]))"

text \<open>\<^verbatim>\<open>re.search\<close> on a value that is not a string.\<close>

definition re_type_error :: "json \<Rightarrow> pyexc" where
  "re_type_error v =
     PyException (Gives (''expected string or bytes-like object, got ''
                         @ [CHR 0x27] @ py_type_name v @ [CHR 0x27]))"

text \<open>
  The body of the handler touches the global \<^verbatim>\<open>last_topic\<close> five times: it reads it on
  line 135, the executed code may assign it on line 142, line 147 writes it, line 148
  reads it for the debug line, line 152 reads it for the payload. The body is cut at
  these places into five stages. Each stage takes the value of \<^verbatim>\<open>last_topic\<close> where it
  needs it and returns the new value where it can change it. An exception is returned as
  the code raises it, before the outer clause.

  Lines 135 to 139: the completion, \<^verbatim>\<open>code\<close> and \<^verbatim>\<open>explanation\<close>, the test \<^verbatim>\<open>if not code\<close>.
\<close>

definition generate :: "host \<Rightarrow> string option \<Rightarrow> PromptRequest \<Rightarrow> (json \<times> json) outcome" where
  "generate H last_topic req =
     (case ask_openai_for_code H (the_prompt req) last_topic of
        Hangs \<Rightarrow> Hangs
      | Raises e \<Rightarrow> Raises e
      | Returns ai_output \<Rightarrow>
          (case ai_output of
             JObj items \<Rightarrow>
               (let code = dict_get items ''code'' JNull;
                    expl = dict_get items ''explanation'' (JStr [])
                in if \<not> truthy code
                   then Raises (HTTPException 500 ''AI did not return code'')
                   else Returns (code, expl))
           | _ \<Rightarrow> Raises (no_get_attribute ai_output)))"

text \<open>
  Line 142, \<^verbatim>\<open>result = run_code_safely(code)\<close>, with what the executed code leaves in
  \<^verbatim>\<open>last_topic\<close>. A \<open>code\<close> that is not a string is refused by \<^verbatim>\<open>exec\<close> before anything runs.
\<close>

definition execute :: "host \<Rightarrow> json \<Rightarrow> string option \<Rightarrow> string outcome \<times> string option" where
  "execute H code last_topic =
     (run_code_safely H code,
      case code of
        JStr src \<Rightarrow> exec_last_topic H src last_topic
      | _ \<Rightarrow> last_topic)"

text \<open>
  Lines 145 to 147:
  \<^verbatim>\<open>
  extracted = extract_topic_from_code(code)
  if extracted:
      last_topic = extracted
  \<close>
  The stage returns whether the branch was taken.
\<close>

definition remember :: "json \<Rightarrow> string option \<Rightarrow> bool outcome \<times> string option" where
  "remember code last_topic =
     (case code of
        JStr src \<Rightarrow>
          (case extract_topic_from_code src of
             Some t \<Rightarrow> if t \<noteq> [] then (Returns True, Some t) else (Returns False, last_topic)
           | None \<Rightarrow> (Returns False, last_topic))
      | _ \<Rightarrow> (Raises (re_type_error code), last_topic))"

text \<open>
  Line 148, inside the branch: \<^verbatim>\<open>print(f"Remembering topic: {last_topic}")\<close>, which reads
  the global again.
\<close>

definition announce :: "host \<Rightarrow> bool \<Rightarrow> string option \<Rightarrow> pyexc option" where
  "announce H wrote last_topic =
     (if wrote
      then py_print H [''Remembering topic: '' @ str_of_topic last_topic, ''\<newline>'']
      else None)"

text \<open>Lines 150 to 156: the payload, with \<^verbatim>\<open>"topic_in_use": last_topic\<close> read from the global.\<close>

definition respond ::
  "PromptRequest \<Rightarrow> json \<Rightarrow> json \<Rightarrow> string \<Rightarrow> string option \<Rightarrow> payload" where
  "respond req code expl res last_topic =
     \<lparr> prompt = the_prompt req,
       topic_in_use = last_topic,
       explanation = expl,
       executed_code = code,
       result = res \<rparr>"

text \<open>
  The handler with nothing else running in between: the five stages one after the
  other, and the outer clause on whatever they raise. It takes the value of
  \<^verbatim>\<open>last_topic\<close> and returns, with its outcome, the value \<^verbatim>\<open>last_topic\<close> has afterwards.
\<close>

definition kafka_agent ::
  "host \<Rightarrow> string option \<Rightarrow> PromptRequest \<Rightarrow> payload outcome \<times> string option" where
  "kafka_agent H last_topic req =
     (case generate H last_topic req of
        Hangs \<Rightarrow> (Hangs, last_topic)
      | Raises e \<Rightarrow> (request_error e, last_topic)
      | Returns (code, expl) \<Rightarrow>
          (case execute H code last_topic of
             (Hangs, m1) \<Rightarrow> (Hangs, m1)
           | (Raises e, m1) \<Rightarrow> (request_error e, m1)
           | (Returns res, m1) \<Rightarrow>
               (case remember code m1 of
                  (Hangs, m2) \<Rightarrow> (Hangs, m2)
                | (Raises e, m2) \<Rightarrow> (request_error e, m2)
                | (Returns wrote, m2) \<Rightarrow>
                    (case announce H wrote m2 of
                       Some e \<Rightarrow> (request_error e, m2)
                     | None \<Rightarrow> (Returns (respond req code expl res m2), m2)))))"




text \<open>
  What the code executed by a request leaves in \<^verbatim>\<open>last_topic\<close>; the memory itself when the
  request executes nothing.
\<close>

definition global_after_exec :: "host \<Rightarrow> string option \<Rightarrow> PromptRequest \<Rightarrow> string option" where
  "global_after_exec H last_topic req =
     (case generate H last_topic req of
        Returns (code, expl) \<Rightarrow> snd (execute H code last_topic)
      | _ \<Rightarrow> last_topic)"

text \<open>A host on which no executed code assigns the global.\<close>

definition exec_keeps_global :: "host \<Rightarrow> bool" where
  "exec_keeps_global H = (\<forall>src v. exec_last_topic H src v = v)"


subsection \<open>Two requests at the same time\<close>

text \<open>
  The server runs the handler of each request on a thread of its own. A thread is at
  one of the cuts of the handler's body, holding the local variables it has so far, or it
  has finished with its outcome. \<open>step\<close> runs the next stage of a thread on the shared
  \<^verbatim>\<open>last_topic\<close>; each access to the global is atomic, as section 5 of the specification
  grants. \<open>interleave\<close> runs two threads by a schedule that names, step by step, the thread
  that moves.
\<close>

datatype thread =
    Arrived PromptRequest
  | Generated PromptRequest json json
  | Executed PromptRequest json json string
  | Remembered PromptRequest json json string bool
  | Announced PromptRequest json json string
  | Finished "payload outcome"

fun step :: "host \<Rightarrow> thread \<Rightarrow> string option \<Rightarrow> thread \<times> string option" where
  "step H (Arrived req) m =
     (case generate H m req of
        Hangs \<Rightarrow> (Finished Hangs, m)
      | Raises e \<Rightarrow> (Finished (request_error e), m)
      | Returns (code, expl) \<Rightarrow> (Generated req code expl, m))"
| "step H (Generated req code expl) m =
     (case execute H code m of
        (Hangs, m1) \<Rightarrow> (Finished Hangs, m1)
      | (Raises e, m1) \<Rightarrow> (Finished (request_error e), m1)
      | (Returns res, m1) \<Rightarrow> (Executed req code expl res, m1))"
| "step H (Executed req code expl res) m =
     (case remember code m of
        (Hangs, m2) \<Rightarrow> (Finished Hangs, m2)
      | (Raises e, m2) \<Rightarrow> (Finished (request_error e), m2)
      | (Returns wrote, m2) \<Rightarrow> (Remembered req code expl res wrote, m2))"
| "step H (Remembered req code expl res wrote) m =
     (case announce H wrote m of
        Some e \<Rightarrow> (Finished (request_error e), m)
      | None \<Rightarrow> (Announced req code expl res, m))"
| "step H (Announced req code expl res) m = (Finished (Returns (respond req code expl res m)), m)"
| "step H (Finished out) m = (Finished out, m)"


text \<open>A thread alone: \<open>n\<close> steps in a row.\<close>

fun steps :: "host \<Rightarrow> nat \<Rightarrow> thread \<times> string option \<Rightarrow> thread \<times> string option" where
  "steps H 0 s = s"
| "steps H (Suc n) (t, m) = steps H n (step H t m)"






subsection \<open>Two concrete hosts\<close>

text \<open>
  The theorems below hold for every host. To run the handler on concrete requests, two
  hosts are fixed here, which differ in the encoding of the standard output. Their
  interpreter and their decoder are tables: on each listed program and on each listed
  text they answer as CPython and \<^verbatim>\<open>json.loads\<close> do.
\<close>

text \<open>The white space \<^verbatim>\<open>json.loads\<close> skips around a document: space, tab, line feed, return.\<close>

definition json_space :: "char \<Rightarrow> bool" where
  "json_space c = (c = CHR '' '' \<or> c = CHR 0x09 \<or> c = CHR 0x0A \<or> c = CHR 0x0D)"

definition orders_code :: string where
  "orders_code = ''topic_name = '' @ [CHR 0x27] @ ''orders'' @ [CHR 0x27]"

definition doc_orders :: string where
  \<open>doc_orders = ''{"code": "'' @ orders_code @ ''", "explanation": "Looking at orders"}''\<close>

definition doc_divide :: string where
  \<open>doc_divide = ''{"code": "1/0", "explanation": "Dividing"}''\<close>

definition doc_exit :: string where
  \<open>doc_exit = ''{"code": "raise SystemExit", "explanation": "Leaving"}''\<close>

definition doc_no_code :: string where
  \<open>doc_no_code = ''{"explanation": "Which topic do you mean?"}''\<close>

definition doc_number :: string where
  \<open>doc_number = ''{"code": 5, "explanation": "Five"}''\<close>

definition payments_code :: string where
  "payments_code = ''topic_name = '' @ [CHR 0x27] @ ''payments'' @ [CHR 0x27]"

definition doc_payments :: string where
  \<open>doc_payments = ''{"code": "'' @ payments_code @ ''", "explanation": "Looking at payments"}''\<close>

text \<open>A program that reaches the globals of the module that called \<^verbatim>\<open>exec\<close>.\<close>

definition forget_code :: string where
  "forget_code =
     ''import sys; sys._getframe(1).f_globals['' @ [CHR 0x27] @ ''last_topic'' @ [CHR 0x27]
     @ ''] = None''"

definition doc_forget :: string where
  \<open>doc_forget = ''{"code": "'' @ forget_code @ ''", "explanation": "Forgetting"}''\<close>

text \<open>
  A topic with the letter e acute (code point 233) in its name, followed by a division
  by zero. In the JSON text the letter is written as the escape u00e9 after a backslash.
\<close>

definition cafe_topic :: string where
  "cafe_topic = ''caf'' @ [CHR 0xE9]"

definition cafe_code :: string where
  "cafe_code = ''topic_name = '' @ [CHR 0x27] @ cafe_topic @ [CHR 0x27] @ ''; 1/0''"

definition doc_cafe :: string where
  \<open>doc_cafe =
     ''{"code": "topic_name = '' @ [CHR 0x27] @ ''caf'' @ [CHR 0x5C] @ ''u00e9'' @ [CHR 0x27]
     @ ''; 1/0", "explanation": "Dividing"}''\<close>

text \<open>A completion that is not JSON and holds the letter e acute.\<close>

definition french_prose :: string where
  "french_prose = ''D'' @ [CHR 0xE9] @ ''sol'' @ [CHR 0xE9] @ ''.''"

definition sample_documents :: "(string \<times> json) list" where
  "sample_documents =
     [(doc_orders, JObj [(''code'', JStr orders_code),
                         (''explanation'', JStr ''Looking at orders'')]),
      (doc_divide, JObj [(''code'', JStr ''1/0''), (''explanation'', JStr ''Dividing'')]),
      (doc_exit, JObj [(''code'', JStr ''raise SystemExit''), (''explanation'', JStr ''Leaving'')]),
      (doc_no_code, JObj [(''explanation'', JStr ''Which topic do you mean?'')]),
      (doc_number, JObj [(''code'', JInt 5), (''explanation'', JStr ''Five'')]),
      (doc_payments, JObj [(''code'', JStr payments_code),
                           (''explanation'', JStr ''Looking at payments'')]),
      (doc_forget, JObj [(''code'', JStr forget_code), (''explanation'', JStr ''Forgetting'')]),
      (doc_cafe, JObj [(''code'', JStr cafe_code), (''explanation'', JStr ''Dividing'')])]"

text \<open>Every text outside the table is rejected; those used below are not JSON.\<close>

definition sample_loads :: "string \<Rightarrow> json option" where
  "sample_loads s = map_of sample_documents (strip_where json_space s)"

text \<open>
  The programs: an assignment, a division by zero, \<^verbatim>\<open>raise SystemExit\<close>, an empty
  \<^verbatim>\<open>print()\<close> followed by an assignment to \<^verbatim>\<open>result\<close>, a \<^verbatim>\<open>print("42")\<close> with the same
  assignment, a second assignment, the program that reaches the caller's globals (its
  only local variable is the imported module), and the assignment followed by a division
  by zero. Any other program, which nothing below runs, is answered as \<^verbatim>\<open>pass\<close> is.
\<close>

definition sample_exec :: "string \<Rightarrow> (string \<times> (string \<rightharpoonup> str_result)) outcome" where
  \<open>sample_exec src =
     (if src = orders_code
        then Returns ([], [''topic_name'' \<mapsto> Gives ''orders''])
      else if src = ''1/0''
        then Raises (PyException (Gives ''division by zero''))
      else if src = ''raise SystemExit''
        then Raises (PyBaseException (Gives []))
      else if src = ''print()\<newline>result = 7''
        then Returns (''\<newline>'', [''result'' \<mapsto> Gives ''7''])
      else if src = ''print("42")\<newline>result = 7''
        then Returns (''42\<newline>'', [''result'' \<mapsto> Gives ''7''])
      else if src = payments_code
        then Returns ([], [''topic_name'' \<mapsto> Gives ''payments''])
      else if src = forget_code
        then Returns ([], [''sys'' \<mapsto> Gives (''<module '' @ [CHR 0x27] @ ''sys'' @ [CHR 0x27]
                                                 @ '' (built-in)>'')])
      else if src = cafe_code
        then Raises (PyException (Gives ''division by zero''))
      else Returns ([], Map.empty))\<close>

text \<open>Of these programs only one assigns the global \<^verbatim>\<open>last_topic\<close>.\<close>

definition sample_exec_last_topic :: "string \<Rightarrow> string option \<Rightarrow> string option" where
  "sample_exec_last_topic src v = (if src = forget_code then None else v)"

text \<open>The completion service, by user prompt; any other prompt meets a connection error.\<close>

definition sample_chat :: "string \<Rightarrow> string \<Rightarrow> string option outcome" where
  "sample_chat sys usr =
     (if usr = ''retention of orders'' then Returns (Some doc_orders)
      else if usr = ''divide'' then Returns (Some doc_divide)
      else if usr = ''leave'' then Returns (Some doc_exit)
      else if usr = ''retention'' then Returns (Some doc_no_code)
      else if usr = ''five'' then Returns (Some doc_number)
      else if usr = ''hello'' then Returns (Some ''Hello! How can I help?'')
      else if usr = ''retention of payments'' then Returns (Some doc_payments)
      else if usr = ''forget'' then Returns (Some doc_forget)
      else if usr = ''coffee'' then Returns (Some doc_cafe)
      else if usr = ''bonjour'' then Returns (Some french_prose)
      else Raises (PyException (Gives ''Connection error.'')))"

text \<open>A standard output encoded in UTF-8 takes every string.\<close>

definition utf8_write :: "string \<Rightarrow> pyexc option" where
  "utf8_write s = None"

definition sample_host :: host where
  "sample_host =
     \<lparr> bootstrap_servers = ''localhost:9092'',
       chat_completion = sample_chat,
       json_loads = sample_loads,
       py_exec = sample_exec,
       exec_last_topic = sample_exec_last_topic,
       stdout_write = utf8_write \<rparr>"

text \<open>
  A standard output encoded in ASCII (a server started with \<^verbatim>\<open>PYTHONIOENCODING=ascii\<close>)
  raises \<^verbatim>\<open>UnicodeEncodeError\<close> on the first run of characters from 128 on. The message
  names the character when the run has one character, the positions of the run
  otherwise.
\<close>

definition is_ascii :: "char \<Rightarrow> bool" where
  "is_ascii c = ((of_char c :: nat) < 128)"

definition hex_digit :: "nat \<Rightarrow> char" where
  "hex_digit n = ''0123456789abcdef'' ! n"

definition hex2 :: "char \<Rightarrow> string" where
  "hex2 c = [hex_digit ((of_char c :: nat) div 16), hex_digit ((of_char c :: nat) mod 16)]"

definition ascii_write :: "string \<Rightarrow> pyexc option" where
  "ascii_write s =
     (let start = length (takeWhile is_ascii s);
          bad = takeWhile (\<lambda>c. \<not> is_ascii c) (dropWhile is_ascii s)
      in case bad of
           [] \<Rightarrow> None
         | c # cs \<Rightarrow>
             Some (PyException (Gives
               ([CHR 0x27] @ ''ascii'' @ [CHR 0x27] @ '' codec can'' @ [CHR 0x27] @ ''t encode ''
                @ (if cs = []
                   then ''character '' @ [CHR 0x27, CHR 0x5C] @ ''x'' @ hex2 c @ [CHR 0x27]
                        @ '' in position '' @ decimal start
                   else ''characters in position '' @ decimal start @ ''-''
                        @ decimal (start + length cs))
                @ '': ordinal not in range(128)''))))"

definition ascii_host :: host where
  "ascii_host =
     \<lparr> bootstrap_servers = ''localhost:9092'',
       chat_completion = sample_chat,
       json_loads = sample_loads,
       py_exec = sample_exec,
       exec_last_topic = sample_exec_last_topic,
       stdout_write = ascii_write \<rparr>"

text \<open>A fenced block around a text, with the language tag \<open>tag\<close> (empty for none).\<close>

definition fenced :: "string \<Rightarrow> string \<Rightarrow> string" where
  "fenced tag T = ''```'' @ tag @ ''\<newline>'' @ T @ ''\<newline>```''"

text \<open>A decoder that, like \<^verbatim>\<open>json.loads\<close>, skips JSON white space around the document.\<close>

definition skips_json_space :: "host \<Rightarrow> bool" where
  "skips_json_space H =
     (\<forall>s w1 w2. list_all json_space w1 \<longrightarrow> list_all json_space w2 \<longrightarrow>
        json_loads H (w1 @ s @ w2) = json_loads H s)"

section \<open>Lemmas\<close>

subsection \<open>The concrete hosts: documents and completions\<close>

lemma decimal_500: "decimal 500 = ''500''"
  by code_simp

lemma sample_simps:
  "py_exec sample_host = sample_exec"
  "json_loads sample_host = sample_loads"
  "chat_completion sample_host = sample_chat"
  "bootstrap_servers sample_host = ''localhost:9092''"
  "exec_last_topic sample_host = sample_exec_last_topic"
  "stdout_write sample_host = utf8_write"
  by (simp_all add: sample_host_def)

lemma ascii_simps:
  "py_exec ascii_host = sample_exec"
  "json_loads ascii_host = sample_loads"
  "chat_completion ascii_host = sample_chat"
  "bootstrap_servers ascii_host = ''localhost:9092''"
  "exec_last_topic ascii_host = sample_exec_last_topic"
  "stdout_write ascii_host = ascii_write"
  by (simp_all add: ascii_host_def)

lemma py_print_sample: "py_print sample_host ws = None"
  by (induction ws) (simp_all add: sample_simps utf8_write_def)

lemmas string_defs =
  py_strip_def strip_where_def py_isspace_def strip_fence_def startswith_def
  endswith_def cleaned_def json_space_def

lemmas doc_defs =
  orders_code_def doc_orders_def doc_divide_def doc_exit_def doc_no_code_def doc_number_def
  payments_code_def doc_payments_def forget_code_def doc_forget_def cafe_topic_def
  cafe_code_def doc_cafe_def french_prose_def

lemma cleaned_docs:
  "cleaned doc_orders = doc_orders"
  "cleaned doc_divide = doc_divide"
  "cleaned doc_exit = doc_exit"
  "cleaned doc_no_code = doc_no_code"
  "cleaned doc_number = doc_number"
  "cleaned ''Hello! How can I help?'' = ''Hello! How can I help?''"
  "cleaned doc_payments = doc_payments"
  "cleaned doc_forget = doc_forget"
  "cleaned doc_cafe = doc_cafe"
  "cleaned french_prose = french_prose"
  by (simp_all add: string_defs doc_defs)

lemma py_strip_docs:
  "py_strip doc_cafe = doc_cafe"
  "py_strip french_prose = french_prose"
  by (simp_all add: string_defs doc_defs)

lemma strip_docs:
  "strip_where json_space doc_orders = doc_orders"
  "strip_where json_space doc_divide = doc_divide"
  "strip_where json_space doc_exit = doc_exit"
  "strip_where json_space doc_no_code = doc_no_code"
  "strip_where json_space doc_number = doc_number"
  "strip_where json_space ''Hello! How can I help?'' = ''Hello! How can I help?''"
  "strip_where json_space doc_payments = doc_payments"
  "strip_where json_space doc_forget = doc_forget"
  "strip_where json_space doc_cafe = doc_cafe"
  "strip_where json_space french_prose = french_prose"
  by (simp_all add: string_defs doc_defs)

lemma sample_loads_docs:
  "sample_loads doc_orders =
     Some (JObj [(''code'', JStr orders_code), (''explanation'', JStr ''Looking at orders'')])"
  "sample_loads doc_divide =
     Some (JObj [(''code'', JStr ''1/0''), (''explanation'', JStr ''Dividing'')])"
  "sample_loads doc_exit =
     Some (JObj [(''code'', JStr ''raise SystemExit''), (''explanation'', JStr ''Leaving'')])"
  "sample_loads doc_no_code = Some (JObj [(''explanation'', JStr ''Which topic do you mean?'')])"
  "sample_loads doc_number = Some (JObj [(''code'', JInt 5), (''explanation'', JStr ''Five'')])"
  "sample_loads doc_payments =
     Some (JObj [(''code'', JStr payments_code), (''explanation'', JStr ''Looking at payments'')])"
  "sample_loads doc_forget =
     Some (JObj [(''code'', JStr forget_code), (''explanation'', JStr ''Forgetting'')])"
  "sample_loads doc_cafe =
     Some (JObj [(''code'', JStr cafe_code), (''explanation'', JStr ''Dividing'')])"
  by code_simp+

lemma sample_loads_rejects_prose:
  "sample_loads ''Hello! How can I help?'' = None"
  "sample_loads french_prose = None"
  by code_simp+

lemma sample_ask:
  "ask_openai_for_code sample_host ''retention of orders'' m =
     Returns (JObj [(''code'', JStr orders_code), (''explanation'', JStr ''Looking at orders'')])"
  "ask_openai_for_code sample_host ''divide'' m =
     Returns (JObj [(''code'', JStr ''1/0''), (''explanation'', JStr ''Dividing'')])"
  "ask_openai_for_code sample_host ''leave'' m =
     Returns (JObj [(''code'', JStr ''raise SystemExit''), (''explanation'', JStr ''Leaving'')])"
  "ask_openai_for_code sample_host ''retention'' m =
     Returns (JObj [(''explanation'', JStr ''Which topic do you mean?'')])"
  "ask_openai_for_code sample_host ''five'' m =
     Returns (JObj [(''code'', JInt 5), (''explanation'', JStr ''Five'')])"
  "ask_openai_for_code sample_host ''hello'' m =
     Raises (HTTPException 500 ''AI response was not valid JSON: Hello! How can I help?'')"
  "ask_openai_for_code sample_host ''retention of payments'' m =
     Returns (JObj [(''code'', JStr payments_code), (''explanation'', JStr ''Looking at payments'')])"
  "ask_openai_for_code sample_host ''forget'' m =
     Returns (JObj [(''code'', JStr forget_code), (''explanation'', JStr ''Forgetting'')])"
  by (simp_all add: ask_openai_for_code_def decode_completion_def sample_simps sample_chat_def
        cleaned_docs sample_loads_docs sample_loads_rejects_prose py_print_sample
        del: py_print.simps)

lemma ascii_write_samples:
  "ascii_write ''AI RAW RESPONSE:'' = None"
  "ascii_write '' '' = None"
  "ascii_write ''\<newline>'' = None"
  "ascii_write doc_cafe = None"
  "ascii_write french_prose =
     Some (PyException (Gives ([CHR 0x27] @ ''ascii'' @ [CHR 0x27] @ '' codec can'' @ [CHR 0x27]
       @ ''t encode character '' @ [CHR 0x27, CHR 0x5C] @ ''xe9'' @ [CHR 0x27]
       @ '' in position 1: ordinal not in range(128)'')))"
  "ascii_write (''Remembering topic: '' @ cafe_topic) =
     Some (PyException (Gives ([CHR 0x27] @ ''ascii'' @ [CHR 0x27] @ '' codec can'' @ [CHR 0x27]
       @ ''t encode character '' @ [CHR 0x27, CHR 0x5C] @ ''xe9'' @ [CHR 0x27]
       @ '' in position 22: ordinal not in range(128)'')))"
  by code_simp+

subsection \<open>The pattern matcher against the shape of an assignment\<close>

lemma eq_not_space: "\<not> py_isspace (CHR ''='')"
  by (simp add: py_isspace_def)

lemma quote_not_space: "is_quote q \<Longrightarrow> \<not> py_isspace q"
  by (auto simp: is_quote_def py_isspace_def)

lemma dropWhile_all: "list_all P w \<Longrightarrow> \<not> P x \<Longrightarrow> dropWhile P (w @ x # r) = x # r"
  by (induction w) auto

lemma takeWhile_all: "list_all P w \<Longrightarrow> \<not> P x \<Longrightarrow> takeWhile P (w @ x # r) = w"
  by (induction w) auto

lemma topic_pattern_at_complete:
  assumes "topic_assignment s lit"
  shows "topic_pattern_at s = Some lit"
proof -
  from assms obtain w1 w2 q1 q2 rest where
    s: "s = ''topic_name'' @ w1 @ ''='' @ w2 @ [q1] @ lit @ [q2] @ rest"
    and w1: "list_all py_isspace w1" and w2: "list_all py_isspace w2"
    and q1: "is_quote q1" and q2: "is_quote q2"
    and lit: "lit \<noteq> []" "list_all (\<lambda>c. \<not> is_quote c) lit"
    unfolding topic_assignment_def by blast
  have p: "prefix ''topic_name'' s" unfolding s by simp
  have d: "drop 10 s = w1 @ CHR ''='' # (w2 @ q1 # (lit @ q2 # rest))"
    unfolding s by simp
  have a: "dropWhile py_isspace (drop 10 s) = CHR ''='' # (w2 @ q1 # (lit @ q2 # rest))"
    unfolding d using w1 eq_not_space by (rule dropWhile_all)
  have b: "dropWhile py_isspace (w2 @ q1 # (lit @ q2 # rest)) = q1 # (lit @ q2 # rest)"
    using w2 quote_not_space [OF q1] by (rule dropWhile_all)
  have c: "takeWhile (\<lambda>c. \<not> is_quote c) (lit @ q2 # rest) = lit"
    using lit(2) q2 by (intro takeWhile_all) auto
  have e: "dropWhile (\<lambda>c. \<not> is_quote c) (lit @ q2 # rest) = q2 # rest"
    using lit(2) q2 by (intro dropWhile_all) auto
  show ?thesis
    unfolding topic_pattern_at_def using p q1 q2 lit(1) by (simp add: a b c e)
qed

lemma list_all_takeWhile: "list_all P (takeWhile P xs)"
  by (induction xs) auto

lemma dropWhile_Cons_hd: "dropWhile P xs = y # ys \<Longrightarrow> \<not> P y"
  using hd_dropWhile [of P xs] by auto

lemma topic_pattern_at_sound:
  assumes "topic_pattern_at s = Some lit"
  shows "topic_assignment s lit"
proof -
  from assms have p: "prefix ''topic_name'' s"
    unfolding topic_pattern_at_def by (auto split: if_splits)
  define t where "t = drop 10 s"
  have s: "s = ''topic_name'' @ t"
    using p unfolding t_def by (auto simp: prefix_def)
  define w1 where "w1 = takeWhile py_isspace t"
  from assms p obtain r2 where r2: "dropWhile py_isspace t = CHR ''='' # r2"
    unfolding topic_pattern_at_def t_def by (auto split: if_splits list.splits)
  define w2 where "w2 = takeWhile py_isspace r2"
  from assms p r2 obtain q1 r4 where r4: "dropWhile py_isspace r2 = q1 # r4" and q1: "is_quote q1"
    unfolding topic_pattern_at_def t_def by (auto split: if_splits list.splits)
  from assms p r2 r4 q1 have lit: "lit = takeWhile (\<lambda>c. \<not> is_quote c) r4" "lit \<noteq> []"
    and r5: "dropWhile (\<lambda>c. \<not> is_quote c) r4 \<noteq> []"
    unfolding topic_pattern_at_def t_def by (auto simp: Let_def split: if_splits)
  from r5 obtain q2 rest where q2r: "dropWhile (\<lambda>c. \<not> is_quote c) r4 = q2 # rest"
    by (cases "dropWhile (\<lambda>c. \<not> is_quote c) r4") auto
  have q2: "is_quote q2" using dropWhile_Cons_hd [OF q2r] by simp
  have "t = w1 @ CHR ''='' # r2"
    unfolding w1_def using r2 takeWhile_dropWhile_id [of py_isspace t] by simp
  moreover have "r2 = w2 @ q1 # r4"
    unfolding w2_def using r4 takeWhile_dropWhile_id [of py_isspace r2] by simp
  moreover have "r4 = lit @ q2 # rest"
    unfolding lit(1) using q2r takeWhile_dropWhile_id [of "\<lambda>c. \<not> is_quote c" r4] by simp
  ultimately have "s = ''topic_name'' @ w1 @ ''='' @ w2 @ [q1] @ lit @ [q2] @ rest"
    using s by simp
  moreover have "list_all py_isspace w1" "list_all py_isspace w2"
    unfolding w1_def w2_def by (rule list_all_takeWhile)+
  moreover have "list_all (\<lambda>c. \<not> is_quote c) lit"
    unfolding lit(1) by (rule list_all_takeWhile)
  ultimately show ?thesis
    unfolding topic_assignment_def using q1 q2 lit(2) by blast
qed

lemma topic_pattern_at_iff: "topic_pattern_at s = Some lit \<longleftrightarrow> topic_assignment s lit"
  using topic_pattern_at_sound topic_pattern_at_complete by blast

lemma topic_pattern_search_Some:
  "topic_pattern_search code = Some lit \<longleftrightarrow>
     (\<exists>i. topic_assignment_at code i lit \<and> (\<forall>j<i. \<forall>l. \<not> topic_assignment_at code j l))"
proof (induction code)
  case Nil
  show ?case
    by (auto simp: topic_assignment_at_def topic_pattern_at_iff)
next
  case (Cons c cs)
  show ?case
  proof (cases "topic_pattern_at (c # cs)")
    case (Some l0)
    then have a0: "topic_assignment_at (c # cs) 0 l0"
      by (simp add: topic_assignment_at_def topic_pattern_at_iff)
    show ?thesis
    proof
      assume "topic_pattern_search (c # cs) = Some lit"
      with Some have "l0 = lit" by simp
      with a0 show "\<exists>i. topic_assignment_at (c # cs) i lit \<and>
          (\<forall>j<i. \<forall>l. \<not> topic_assignment_at (c # cs) j l)"
        by (intro exI [of _ 0]) simp
    next
      assume "\<exists>i. topic_assignment_at (c # cs) i lit \<and>
          (\<forall>j<i. \<forall>l. \<not> topic_assignment_at (c # cs) j l)"
      then obtain i where i: "topic_assignment_at (c # cs) i lit"
        and least: "\<forall>j<i. \<forall>l. \<not> topic_assignment_at (c # cs) j l" by blast
      from least a0 have "i = 0" by (cases i) auto
      with i have "topic_pattern_at (c # cs) = Some lit"
        by (simp add: topic_assignment_at_def topic_pattern_at_iff)
      with Some show "topic_pattern_search (c # cs) = Some lit" by simp
    qed
  next
    case None
    then have n0: "\<not> topic_assignment_at (c # cs) 0 l" for l
      by (simp add: topic_assignment_at_def flip: topic_pattern_at_iff)
    have shift: "topic_assignment_at (c # cs) (Suc i) l = topic_assignment_at cs i l" for i l
      by (simp add: topic_assignment_at_def)
    have "topic_pattern_search (c # cs) = Some lit \<longleftrightarrow> topic_pattern_search cs = Some lit"
      using None by simp
    also have "\<dots> \<longleftrightarrow> (\<exists>i. topic_assignment_at cs i lit \<and> (\<forall>j<i. \<forall>l. \<not> topic_assignment_at cs j l))"
      by (rule Cons.IH)
    also have "\<dots> \<longleftrightarrow> (\<exists>i. topic_assignment_at (c # cs) i lit \<and>
          (\<forall>j<i. \<forall>l. \<not> topic_assignment_at (c # cs) j l))" (is "?L \<longleftrightarrow> ?R")
    proof
      assume ?L
      then obtain i where i: "topic_assignment_at cs i lit"
        and least: "\<forall>j<i. \<forall>l. \<not> topic_assignment_at cs j l" by blast
      have "\<forall>j<Suc i. \<forall>l. \<not> topic_assignment_at (c # cs) j l"
      proof (intro allI impI)
        fix j l assume "j < Suc i"
        then show "\<not> topic_assignment_at (c # cs) j l"
          using n0 least shift by (cases j) auto
      qed
      with i shift show ?R by blast
    next
      assume ?R
      then obtain i where i: "topic_assignment_at (c # cs) i lit"
        and least: "\<forall>j<i. \<forall>l. \<not> topic_assignment_at (c # cs) j l" by blast
      from i n0 obtain k where k: "i = Suc k" by (cases i) auto
      have "\<forall>j<k. \<forall>l. \<not> topic_assignment_at cs j l"
      proof (intro allI impI)
        fix j l assume "j < k"
        then have "Suc j < i" using k by simp
        with least have "\<not> topic_assignment_at (c # cs) (Suc j) l" by blast
        then show "\<not> topic_assignment_at cs j l" using shift by simp
      qed
      with i k shift show ?L by blast
    qed
    finally show ?thesis .
  qed
qed

lemma topic_pattern_search_None:
  "topic_pattern_search code = None \<longleftrightarrow> (\<forall>i l. \<not> topic_assignment_at code i l)"
proof
  assume n: "topic_pattern_search code = None"
  show "\<forall>i l. \<not> topic_assignment_at code i l"
  proof (intro allI notI)
    fix i l assume a: "topic_assignment_at code i l"
    define k where "k = (LEAST j. \<exists>l. topic_assignment_at code j l)"
    have ex: "\<exists>l. topic_assignment_at code k l"
      unfolding k_def using a by (intro LeastI [of "\<lambda>j. \<exists>l. topic_assignment_at code j l" i]) blast
    then obtain l' where l': "topic_assignment_at code k l'" by blast
    have "\<forall>j<k. \<forall>l. \<not> topic_assignment_at code j l"
      unfolding k_def using not_less_Least by blast
    with l' have "topic_pattern_search code = Some l'"
      unfolding topic_pattern_search_Some by blast
    with n show False by simp
  qed
next
  assume "\<forall>i l. \<not> topic_assignment_at code i l"
  then have "topic_pattern_search code \<noteq> Some l" for l
    unfolding topic_pattern_search_Some by blast
  then show "topic_pattern_search code = None" by (cases "topic_pattern_search code") auto
qed

lemma extracted_nonempty: "extract_topic_from_code src = Some t \<Longrightarrow> t \<noteq> []"
  unfolding extract_topic_from_code_def topic_pattern_search_Some
    topic_assignment_at_def topic_assignment_def
  by blast

subsection \<open>The handler\<close>



lemma request_error_HTTPException:
  "request_error (HTTPException 500 detail) = Raises (HTTPException 500 (''500: '' @ detail))"
  by (simp add: request_error_def decimal_500)

lemma remember_cases:
  "remember code m =
     (case code of
        JStr src \<Rightarrow>
          (case extract_topic_from_code src of
             Some t \<Rightarrow> (Returns True, Some t)
           | None \<Rightarrow> (Returns False, m))
      | _ \<Rightarrow> (Raises (re_type_error code), m))"
  using extracted_nonempty
  by (auto simp: remember_def split: json.splits option.splits)

text \<open>The handler, stage by stage, for a code that is a string.\<close>

lemma kafka_agent_string_code:
  assumes "generate H m req = Returns (JStr src, expl)"
  shows "kafka_agent H m req =
     (case run_code_safely H (JStr src) of
        Hangs \<Rightarrow> (Hangs, exec_last_topic H src m)
      | Raises e \<Rightarrow> (request_error e, exec_last_topic H src m)
      | Returns res \<Rightarrow>
          (case extract_topic_from_code src of
             None \<Rightarrow> (Returns (respond req (JStr src) expl res (exec_last_topic H src m)),
                       exec_last_topic H src m)
           | Some t \<Rightarrow>
               (case announce H True (Some t) of
                  Some e \<Rightarrow> (request_error e, Some t)
                | None \<Rightarrow> (Returns (respond req (JStr src) expl res (Some t)), Some t))))"
  using assms
  by (simp add: kafka_agent_def execute_def remember_cases announce_def
        split: outcome.splits option.splits)

lemma run_code_safely_not_string:
  assumes "\<forall>src. code \<noteq> JStr src"
  shows "run_code_safely H code =
           Returns ''Error while executing AI code: exec() arg 1 must be a string, bytes or code object''"
  using assms
  by (cases code) (simp_all add: run_code_safely_def builtin_exec_def execution_error_def)

lemma kafka_agent_other_code:
  assumes "generate H m req = Returns (code, expl)" and "\<forall>src. code \<noteq> JStr src"
  shows "kafka_agent H m req = (request_error (re_type_error code), m)"
  using assms run_code_safely_not_string [OF assms(2), of H]
  by (cases code) (simp_all add: kafka_agent_def execute_def remember_cases)

lemma kafka_agent_no_code:
  assumes "\<forall>code expl. generate H m req \<noteq> Returns (code, expl)"
  shows "kafka_agent H m req = (Hangs, m) \<or> (\<exists>e. kafka_agent H m req = (request_error e, m))"
  using assms by (cases "generate H m req") (auto simp: kafka_agent_def)






lemma global_after_exec_kept:
  "exec_keeps_global H \<Longrightarrow> global_after_exec H m req = m"
  by (auto simp: exec_keeps_global_def global_after_exec_def execute_def
        split: outcome.splits json.splits)


text \<open>The handler is the five steps of a thread that runs alone.\<close>

lemma kafka_agent_steps:
  "steps H 5 (Arrived req, m) =
     (Finished (fst (kafka_agent H m req)), snd (kafka_agent H m req))"
  by (simp add: eval_nat_numeral kafka_agent_def
        split: outcome.splits prod.splits option.splits)

subsection \<open>Threads and schedules\<close>













subsection \<open>The concrete hosts: requests\<close>

lemma ascii_print_samples:
  "py_print ascii_host [''AI RAW RESPONSE:'', '' '', doc_cafe, ''\<newline>''] = None"
  "py_print ascii_host [''AI RAW RESPONSE:'', '' '', french_prose, ''\<newline>''] =
     Some (PyException (Gives ([CHR 0x27] @ ''ascii'' @ [CHR 0x27] @ '' codec can'' @ [CHR 0x27]
       @ ''t encode character '' @ [CHR 0x27, CHR 0x5C] @ ''xe9'' @ [CHR 0x27]
       @ '' in position 1: ordinal not in range(128)'')))"
  by (simp_all add: ascii_simps ascii_write_samples)

lemma ascii_announce:
  "announce ascii_host True (Some cafe_topic) =
     Some (PyException (Gives ([CHR 0x27] @ ''ascii'' @ [CHR 0x27] @ '' codec can'' @ [CHR 0x27]
       @ ''t encode character '' @ [CHR 0x27, CHR 0x5C] @ ''xe9'' @ [CHR 0x27]
       @ '' in position 22: ordinal not in range(128)'')))"
  by code_simp


lemma ascii_ask:
  "ask_openai_for_code ascii_host ''coffee'' m =
     Returns (JObj [(''code'', JStr cafe_code), (''explanation'', JStr ''Dividing'')])"
  "ask_openai_for_code ascii_host ''bonjour'' m =
     Raises (PyException (Gives ([CHR 0x27] @ ''ascii'' @ [CHR 0x27] @ '' codec can'' @ [CHR 0x27]
       @ ''t encode character '' @ [CHR 0x27, CHR 0x5C] @ ''xe9'' @ [CHR 0x27]
       @ '' in position 1: ordinal not in range(128)'')))"
  by (simp_all add: ask_openai_for_code_def decode_completion_def ascii_simps sample_chat_def
        cleaned_docs py_strip_docs sample_loads_docs ascii_print_samples del: py_print.simps)

lemma sample_generate:
  "generate sample_host m (PromptRequest ''retention of orders'') =
     Returns (JStr orders_code, JStr ''Looking at orders'')"
  "generate sample_host m (PromptRequest ''divide'') = Returns (JStr ''1/0'', JStr ''Dividing'')"
  "generate sample_host m (PromptRequest ''leave'') =
     Returns (JStr ''raise SystemExit'', JStr ''Leaving'')"
  "generate sample_host m (PromptRequest ''retention'') =
     Raises (HTTPException 500 ''AI did not return code'')"
  "generate sample_host m (PromptRequest ''five'') = Returns (JInt 5, JStr ''Five'')"
  "generate sample_host m (PromptRequest ''hello'') =
     Raises (HTTPException 500 ''AI response was not valid JSON: Hello! How can I help?'')"
  "generate sample_host m (PromptRequest ''retention of payments'') =
     Returns (JStr payments_code, JStr ''Looking at payments'')"
  "generate sample_host m (PromptRequest ''forget'') =
     Returns (JStr forget_code, JStr ''Forgetting'')"
  by (simp_all add: generate_def sample_ask dict_get_def doc_defs)

lemma ascii_generate:
  "generate ascii_host m (PromptRequest ''coffee'') = Returns (JStr cafe_code, JStr ''Dividing'')"
  "generate ascii_host m (PromptRequest ''bonjour'') =
     Raises (PyException (Gives ([CHR 0x27] @ ''ascii'' @ [CHR 0x27] @ '' codec can'' @ [CHR 0x27]
       @ ''t encode character '' @ [CHR 0x27, CHR 0x5C] @ ''xe9'' @ [CHR 0x27]
       @ '' in position 1: ordinal not in range(128)'')))"
  by (simp_all add: generate_def ascii_ask dict_get_def doc_defs)

lemma sample_exec_programs:
  "sample_exec orders_code = Returns ([], [''topic_name'' \<mapsto> Gives ''orders''])"
  "sample_exec ''1/0'' = Raises (PyException (Gives ''division by zero''))"
  "sample_exec ''raise SystemExit'' = Raises (PyBaseException (Gives []))"
  "sample_exec payments_code = Returns ([], [''topic_name'' \<mapsto> Gives ''payments''])"
  "sample_exec forget_code =
     Returns ([], [''sys'' \<mapsto> Gives (''<module '' @ [CHR 0x27] @ ''sys'' @ [CHR 0x27] @ '' (built-in)>'')])"
  "sample_exec cafe_code = Raises (PyException (Gives ''division by zero''))"
  by (simp_all add: sample_exec_def doc_defs)


lemma sample_run:
  "run_code_safely sample_host (JStr orders_code) = Returns ''<no result>''"
  "run_code_safely sample_host (JStr ''1/0'') =
     Returns ''Error while executing AI code: division by zero''"
  "run_code_safely sample_host (JStr ''raise SystemExit'') = Raises (PyBaseException (Gives []))"
  "run_code_safely sample_host (JStr payments_code) = Returns ''<no result>''"
  "run_code_safely sample_host (JStr forget_code) = Returns ''<no result>''"
  "run_code_safely ascii_host (JStr cafe_code) =
     Returns ''Error while executing AI code: division by zero''"
  by (simp_all add: run_code_safely_def builtin_exec_def sample_simps ascii_simps
        sample_exec_programs execution_error_def py_strip_def strip_where_def)

lemma sample_extract:
  "extract_topic_from_code orders_code = Some ''orders''"
  "extract_topic_from_code ''1/0'' = None"
  "extract_topic_from_code ''raise SystemExit'' = None"
  "extract_topic_from_code payments_code = Some ''payments''"
  "extract_topic_from_code forget_code = None"
  "extract_topic_from_code cafe_code = Some cafe_topic"
  by (simp_all add: extract_topic_from_code_def topic_pattern_at_def py_isspace_def
        is_quote_def doc_defs)



lemma ascii_requests:
  "kafka_agent ascii_host m (PromptRequest ''coffee'') =
     (Raises (HTTPException 500 ([CHR 0x27] @ ''ascii'' @ [CHR 0x27] @ '' codec can'' @ [CHR 0x27]
       @ ''t encode character '' @ [CHR 0x27, CHR 0x5C] @ ''xe9'' @ [CHR 0x27]
       @ '' in position 22: ordinal not in range(128)'')), Some cafe_topic)"
  "kafka_agent ascii_host m (PromptRequest ''bonjour'') =
     (Raises (HTTPException 500 ([CHR 0x27] @ ''ascii'' @ [CHR 0x27] @ '' codec can'' @ [CHR 0x27]
       @ ''t encode character '' @ [CHR 0x27, CHR 0x5C] @ ''xe9'' @ [CHR 0x27]
       @ '' in position 1: ordinal not in range(128)'')), m)"
proof -
  show "kafka_agent ascii_host m (PromptRequest ''coffee'') =
     (Raises (HTTPException 500 ([CHR 0x27] @ ''ascii'' @ [CHR 0x27] @ '' codec can'' @ [CHR 0x27]
       @ ''t encode character '' @ [CHR 0x27, CHR 0x5C] @ ''xe9'' @ [CHR 0x27]
       @ '' in position 22: ordinal not in range(128)'')), Some cafe_topic)"
    unfolding kafka_agent_string_code [OF ascii_generate(1)]
    by (simp add: sample_run sample_extract ascii_announce request_error_def)
  show "kafka_agent ascii_host m (PromptRequest ''bonjour'') =
     (Raises (HTTPException 500 ([CHR 0x27] @ ''ascii'' @ [CHR 0x27] @ '' codec can'' @ [CHR 0x27]
       @ ''t encode character '' @ [CHR 0x27, CHR 0x5C] @ ''xe9'' @ [CHR 0x27]
       @ '' in position 1: ordinal not in range(128)'')), m)"
    by (simp add: kafka_agent_def ascii_generate request_error_def)
qed

lemma sample_request_five:
  "run_code_safely sample_host (JInt 5) =
     Returns ''Error while executing AI code: exec() arg 1 must be a string, bytes or code object''"
  "kafka_agent sample_host m (PromptRequest ''five'') =
     (Raises (HTTPException 500 (''expected string or bytes-like object, got ''
                                  @ [CHR 0x27] @ ''int'' @ [CHR 0x27])), m)"
  by (simp_all add: kafka_agent_other_code [OF sample_generate(5)] run_code_safely_not_string
        request_error_def re_type_error_def)



subsection \<open>Stripping and fences\<close>

lemma strip_where_id:
  assumes "xs \<noteq> []" "\<not> P (hd xs)" "\<not> P (last xs)"
  shows "strip_where P xs = xs"
proof -
  have a: "dropWhile P xs = xs"
    using assms(1,2) by (cases xs) auto
  have "rev xs \<noteq> []" "\<not> P (hd (rev xs))"
    using assms(1,3) by (simp_all add: hd_rev)
  then have "dropWhile P (rev xs) = rev xs"
    by (cases "rev xs") auto
  with a show ?thesis by (simp add: strip_where_def)
qed

lemma strip_where_all: "list_all P s \<Longrightarrow> strip_where P s = []"
  by (auto simp: strip_where_def list_all_iff dest: set_dropWhileD)

lemma strip_where_around:
  assumes "list_all P w1" "list_all P w2"
  shows "strip_where P (w1 @ s @ w2) = strip_where P s"
proof (cases "list_all P s")
  case True
  with assms have "list_all P (w1 @ s @ w2)" by simp
  then have "strip_where P (w1 @ s @ w2) = []" by (rule strip_where_all)
  moreover from True have "strip_where P s = []" by (rule strip_where_all)
  ultimately show ?thesis by simp
next
  case False
  then have s: "\<not> (\<forall>x\<in>set s. P x)" by (simp add: list_all_iff)
  have "dropWhile P (w1 @ s @ w2) = dropWhile P (s @ w2)"
    using assms(1) by (simp add: list_all_iff)
  also have "\<dots> = dropWhile P s @ w2"
    using s by (auto simp: dropWhile_append)
  finally have "rev (dropWhile P (w1 @ s @ w2)) = rev w2 @ rev (dropWhile P s)"
    by simp
  moreover have "dropWhile P (rev w2 @ rev (dropWhile P s)) = dropWhile P (rev (dropWhile P s))"
    using assms(2) by (intro dropWhile_append2) (simp add: list_all_iff)
  ultimately show ?thesis by (simp only: strip_where_def)
qed


lemma newline_space: "py_isspace CHR ''\<newline>''" "json_space CHR ''\<newline>''"
  by (simp_all add: py_isspace_def json_space_def)

lemma backtick_facts:
  "\<not> py_isspace CHR ''`''" "py_lower_char CHR ''`'' = CHR ''`''"
  "py_lower_char CHR ''\<newline>'' = CHR ''\<newline>''"
  by (simp_all add: py_isspace_def py_lower_char_def)

lemma fenced_ends: "fenced tag T \<noteq> []" "hd (fenced tag T) = CHR ''`''" "last (fenced tag T) = CHR ''`''"
  by (simp_all add: fenced_def)

lemma py_strip_fenced: "py_strip (fenced tag T) = fenced tag T"
  unfolding py_strip_def
  by (rule strip_where_id) (simp_all add: fenced_ends backtick_facts)


lemma body_ends:
  assumes "tag = [] \<or> hd tag \<noteq> CHR ''`''"
  shows "tag @ ''\<newline>'' @ T @ ''\<newline>'' \<noteq> []"
    and "hd (tag @ ''\<newline>'' @ T @ ''\<newline>'') \<noteq> CHR ''`''"
    and "last (tag @ ''\<newline>'' @ T @ ''\<newline>'') \<noteq> CHR ''`''"
proof -
  show "tag @ ''\<newline>'' @ T @ ''\<newline>'' \<noteq> []" by simp
  show "hd (tag @ ''\<newline>'' @ T @ ''\<newline>'') \<noteq> CHR ''`''"
    using assms by (cases tag) simp_all
  have "last (tag @ ''\<newline>'' @ T @ ''\<newline>'') = CHR ''\<newline>''" by simp
  then show "last (tag @ ''\<newline>'' @ T @ ''\<newline>'') \<noteq> CHR ''`''" by simp
qed

lemma strip_backticks_fenced:
  assumes "tag = [] \<or> hd tag \<noteq> CHR ''`''"
  shows "strip_backticks (fenced tag T) = tag @ ''\<newline>'' @ T @ ''\<newline>''"
proof -
  let ?P = "\<lambda>c. c = CHR ''`''"
  let ?body = "tag @ ''\<newline>'' @ T @ ''\<newline>''"
  have "fenced tag T = ''```'' @ ?body @ ''```''"
    by (simp add: fenced_def)
  moreover have "strip_where ?P (''```'' @ ?body @ ''```'') = strip_where ?P ?body"
    by (rule strip_where_around) simp_all
  moreover have "strip_where ?P ?body = ?body"
    using body_ends [OF assms, of T] by (intro strip_where_id) blast+
  ultimately show ?thesis by (simp only: strip_backticks_def)
qed


lemma json_tag:
  assumes "py_lower tag = ''json''"
  shows "length tag = 4" and "tag = [] \<or> hd tag \<noteq> CHR ''`''"
proof -
  from assms have "length (map py_lower_char tag) = 4"
    by (simp add: py_lower_def)
  then show "length tag = 4" by simp
  show "tag = [] \<or> hd tag \<noteq> CHR ''`''"
  proof (cases tag)
    case Nil
    then show ?thesis by simp
  next
    case (Cons c cs)
    with assms have "py_lower_char c = CHR ''j''"
      by (simp add: py_lower_def)
    then have "c \<noteq> CHR ''`''"
      using backtick_facts(2) by auto
    with Cons show ?thesis by simp
  qed
qed

lemma cleaned_plain:
  assumes "\<not> startswith (py_strip T) ''```''"
  shows "cleaned T = py_strip T"
  using assms by (simp add: cleaned_def strip_fence_def)

lemma startswith_fenced: "startswith (fenced tag T) ''```''"
  by (simp add: startswith_def fenced_def)

lemma cleaned_fenced:
  "cleaned (fenced tag T) =
     (let raw1 = strip_backticks (fenced tag T);
          raw2 = (if startswith (py_lower raw1) ''json'' then py_strip (drop 4 raw1) else raw1)
      in if endswith raw2 ''```'' then py_strip (take (length raw2 - 3) raw2) else raw2)"
  unfolding cleaned_def py_strip_fenced strip_fence_def
  using startswith_fenced [of tag T] by (simp only: if_True)


lemma cleaned_fenced_json:
  assumes "py_lower tag = ''json''" and "\<not> endswith (py_strip T) ''```''"
  shows "cleaned (fenced tag T) = py_strip T"
proof -
  note tag = json_tag [OF assms(1)]
  define body where "body = ''\<newline>'' @ T @ ''\<newline>''"
  have raw1: "strip_backticks (fenced tag T) = tag @ body"
    using strip_backticks_fenced [OF tag(2), of T] by (simp add: body_def)
  have "py_lower (tag @ body) = ''json'' @ py_lower body"
    using assms(1) by (simp add: py_lower_def)
  then have low: "startswith (py_lower (tag @ body)) ''json''"
    by (simp add: startswith_def)
  have "py_strip body = py_strip T"
    unfolding py_strip_def body_def
    by (rule strip_where_around) (simp_all add: newline_space)
  then have raw2: "py_strip (drop 4 (tag @ body)) = py_strip T"
    using tag(1) by simp
  show ?thesis
    unfolding cleaned_fenced raw1 Let_def
    using low raw2 assms(2) by (simp only: if_True if_False)
qed

lemma cleaned_fenced_untagged: "cleaned (fenced [] T) = ''\<newline>'' @ T @ ''\<newline>''"
proof -
  define body where "body = ''\<newline>'' @ T @ ''\<newline>''"
  have raw1: "strip_backticks (fenced [] T) = body"
    using strip_backticks_fenced [of "[]" T] by (simp add: body_def)
  have "hd (py_lower body) = CHR ''\<newline>''"
    by (simp add: body_def py_lower_def backtick_facts)
  moreover have "py_lower body \<noteq> []"
    by (simp add: body_def py_lower_def)
  ultimately have low: "\<not> startswith (py_lower body) ''json''"
    by (cases "py_lower body") (auto simp: startswith_def)
  have "last body = CHR ''\<newline>''" by (simp add: body_def)
  then have e: "\<not> endswith body ''```''"
    by (auto simp: endswith_def suffix_def)
  show ?thesis
    unfolding cleaned_fenced raw1 Let_def
    using low e by (simp only: if_False body_def)
qed

lemma sample_skips_json_space: "skips_json_space sample_host"
  unfolding skips_json_space_def sample_simps sample_loads_def
  by (simp add: strip_where_around)

lemma py_strip_padded: "py_strip ('' '' @ doc_divide @ ''\<newline>'') = doc_divide"
proof -
  have "py_strip ('' '' @ doc_divide @ ''\<newline>'') = py_strip doc_divide"
    unfolding py_strip_def by (rule strip_where_around) (simp_all add: py_isspace_def)
  also have "\<dots> = doc_divide"
    by (simp add: string_defs doc_defs)
  finally show ?thesis .
qed

lemma doc_divide_ends: "\<not> startswith doc_divide ''```''" "\<not> endswith doc_divide ''```''"
  by (simp_all add: startswith_def endswith_def doc_defs suffix_def)

lemma py_lower_JSON: "py_lower ''JSON'' = ''json''"
  by code_simp

lemma cleaned_nested:
  "cleaned (fenced ''json'' doc_divide) = doc_divide"
  "cleaned (fenced ''json'' (fenced ''json'' doc_divide)) = ''```json\<newline>'' @ doc_divide"
  "cleaned (CHR 0x0C # doc_divide) = doc_divide"
  "cleaned (fenced [] (CHR 0x0C # doc_divide)) = ''\<newline>'' @ [CHR 0x0C] @ doc_divide @ ''\<newline>''"
  by code_simp+

lemma sample_loads_rejects:
  "sample_loads (''```json\<newline>'' @ doc_divide) = None"
  "sample_loads (''\<newline>'' @ [CHR 0x0C] @ doc_divide @ ''\<newline>'') = None"
  by code_simp+

lemma no_assignment_at:
  "topic_pattern_at (drop j code) = None \<Longrightarrow> \<not> topic_assignment_at code j lit"
  by (simp add: topic_assignment_at_def flip: topic_pattern_at_iff)

subsection \<open>The memory over requests and steps\<close>






lemma french_prose_accent: "CHR 0xE9 \<in> set french_prose"
  by (simp add: french_prose_def)


section \<open>The claims\<close>

subsection \<open>The sandbox executor\<close>








subsection \<open>The memory across requests\<close>







subsection \<open>Execution failures inside a request\<close>




subsection \<open>Decoding the completion\<close>

text \<open>
  C4, as the code has it. Let the trimmed form of \<open>T\<close> neither start nor end with three
  backticks. Wrapped in a fenced block whose tag is \<^verbatim>\<open>json\<close> in any letter case, \<open>T\<close>
  decodes exactly as it does alone. Wrapped in a fenced block without a tag, \<open>T\<close>
  decodes to the same value whenever it decodes alone, the white space around its trimmed
  form is JSON white space, and the decoder skips JSON white space.
\<close>

theorem C4_fenced_round_trip:
  assumes "\<not> startswith (py_strip T) ''```''" and "\<not> endswith (py_strip T) ''```''"
  shows "(py_lower tag = ''json'' \<longrightarrow>
            decode_completion H (fenced tag T) = decode_completion H T) \<and>
         (skips_json_space H \<longrightarrow> list_all json_space w1 \<longrightarrow> list_all json_space w2 \<longrightarrow>
            T = w1 @ py_strip T @ w2 \<longrightarrow> decode_completion H T = Returns v \<longrightarrow>
            decode_completion H (fenced [] T) = Returns v)"
proof (intro conjI impI)
  assume "py_lower tag = ''json''"
  then have "cleaned (fenced tag T) = cleaned T"
    using assms by (simp add: cleaned_fenced_json cleaned_plain)
  then show "decode_completion H (fenced tag T) = decode_completion H T"
    by (simp add: decode_completion_def)
next
  assume skip: "skips_json_space H"
    and w: "list_all json_space w1" "list_all json_space w2"
    and T: "T = w1 @ py_strip T @ w2"
    and v: "decode_completion H T = Returns v"
  from v assms(1) have t: "json_loads H (py_strip T) = Some v"
    by (auto simp: decode_completion_def cleaned_plain Let_def split: option.splits)
  have ws: "list_all json_space (''\<newline>'' @ w1)" "list_all json_space (w2 @ ''\<newline>'')"
    using w by (simp_all add: newline_space)
  have "''\<newline>'' @ T @ ''\<newline>'' = (''\<newline>'' @ w1) @ py_strip T @ (w2 @ ''\<newline>'')"
    using T by simp
  moreover have "json_loads H ((''\<newline>'' @ w1) @ py_strip T @ (w2 @ ''\<newline>'')) =
      json_loads H (py_strip T)"
    using skip ws unfolding skips_json_space_def by blast
  ultimately have "json_loads H (cleaned (fenced [] T)) = Some v"
    using t by (simp only: cleaned_fenced_untagged)
  then show "decode_completion H (fenced [] T) = Returns v"
    by (simp add: decode_completion_def)
qed

text \<open>
  A document with a space before it and a line end after it, alone, under the tag
  \<^verbatim>\<open>JSON\<close>, and without a tag.
\<close>

theorem C4_fenced_round_trip_witness:
  "decode_completion sample_host ('' '' @ doc_divide @ ''\<newline>'') =
     Returns (JObj [(''code'', JStr ''1/0''), (''explanation'', JStr ''Dividing'')]) \<and>
   decode_completion sample_host (fenced ''JSON'' ('' '' @ doc_divide @ ''\<newline>'')) =
     Returns (JObj [(''code'', JStr ''1/0''), (''explanation'', JStr ''Dividing'')]) \<and>
   decode_completion sample_host (fenced [] ('' '' @ doc_divide @ ''\<newline>'')) =
     Returns (JObj [(''code'', JStr ''1/0''), (''explanation'', JStr ''Dividing'')])"
proof -
  let ?T = "'' '' @ doc_divide @ ''\<newline>''"
  let ?v = "JObj [(''code'', JStr ''1/0''), (''explanation'', JStr ''Dividing'')]"
  have a: "\<not> startswith (py_strip ?T) ''```''" and b: "\<not> endswith (py_strip ?T) ''```''"
    unfolding py_strip_padded by (rule doc_divide_ends)+
  have c: "list_all json_space '' ''" "list_all json_space ''\<newline>''"
    by (simp_all add: json_space_def)
  have d: "?T = '' '' @ py_strip ?T @ ''\<newline>''"
    unfolding py_strip_padded ..
  have e: "decode_completion sample_host ?T = Returns ?v"
    using doc_divide_ends
    by (simp add: decode_completion_def cleaned_def py_strip_padded strip_fence_def
          sample_simps sample_loads_docs del: append.simps append_Cons)
  from C4_fenced_round_trip [OF a b, of "''JSON''" sample_host "'' ''" "''\<newline>''" ?v]
    py_lower_JSON sample_skips_json_space c d e
  show ?thesis by (simp only: simp_thms)
qed

text \<open>
  A completion that is itself a fenced block decodes; the same completion wrapped in one
  more fenced block does not, since one layer of backticks is removed at the front and
  two at the back. And a form feed is white space for \<^verbatim>\<open>str.strip\<close> but not for
  \<^verbatim>\<open>json.loads\<close>: alone, a document after a form feed is trimmed and decodes; inside a
  fence without a tag it reaches the decoder untrimmed and is rejected.
\<close>

theorem C4_counterexample:
  "decode_completion sample_host (fenced ''json'' doc_divide) =
     Returns (JObj [(''code'', JStr ''1/0''), (''explanation'', JStr ''Dividing'')]) \<and>
   decode_completion sample_host (fenced ''json'' (fenced ''json'' doc_divide)) =
     Raises (HTTPException 500
       (''AI response was not valid JSON: '' @ ''```json\<newline>'' @ doc_divide)) \<and>
   decode_completion sample_host (CHR 0x0C # doc_divide) =
     Returns (JObj [(''code'', JStr ''1/0''), (''explanation'', JStr ''Dividing'')]) \<and>
   decode_completion sample_host (fenced [] (CHR 0x0C # doc_divide)) =
     Raises (HTTPException 500
       (''AI response was not valid JSON: '' @ ''\<newline>'' @ [CHR 0x0C] @ doc_divide @ ''\<newline>''))"
  by (simp add: decode_completion_def cleaned_nested sample_simps sample_loads_docs
        sample_loads_rejects del: append.simps append_Cons)

text \<open>
  C8, as the code has it. When the debug line of line 99 is printed without an exception
  and the cleaned text of the completion does not decode, \<^verbatim>\<open>ask_openai_for_code\<close> raises an
  \<^verbatim>\<open>HTTPException\<close> of status 500 whose detail ends with that cleaned text, and the request
  fails with an \<^verbatim>\<open>HTTPException\<close> of status 500 whose detail ends with it too.
\<close>

theorem C8_invalid_json_reported:
  assumes "chat_completion H (system_prompt (bootstrap_servers H) last_topic) (the_prompt req) =
             Returns (Some content)"
    and "py_print H [''AI RAW RESPONSE:'', '' '', py_strip content, ''\<newline>''] = None"
    and "json_loads H (cleaned content) = None"
  shows "ask_openai_for_code H (the_prompt req) last_topic =
           Raises (HTTPException 500 (''AI response was not valid JSON: '' @ cleaned content)) \<and>
         kafka_agent H last_topic req =
           (Raises (HTTPException 500 (''500: AI response was not valid JSON: '' @ cleaned content)),
            last_topic)"
proof -
  from assms have a: "ask_openai_for_code H (the_prompt req) last_topic =
      Raises (HTTPException 500 (''AI response was not valid JSON: '' @ cleaned content))"
    by (simp add: ask_openai_for_code_def decode_completion_def del: py_print.simps)
  then show ?thesis
    by (simp add: kafka_agent_def generate_def request_error_HTTPException)
qed

text \<open>A completion that is plain prose.\<close>

theorem C8_invalid_json_reported_witness:
  "chat_completion sample_host (system_prompt (bootstrap_servers sample_host) None)
     (the_prompt (PromptRequest ''hello'')) = Returns (Some ''Hello! How can I help?'') \<and>
   py_print sample_host
     [''AI RAW RESPONSE:'', '' '', py_strip ''Hello! How can I help?'', ''\<newline>''] = None \<and>
   json_loads sample_host (cleaned ''Hello! How can I help?'') = None \<and>
   kafka_agent sample_host None (PromptRequest ''hello'') =
     (Raises (HTTPException 500 ''500: AI response was not valid JSON: Hello! How can I help?''), None)"
proof -
  have a: "chat_completion sample_host (system_prompt (bootstrap_servers sample_host) None)
             (the_prompt (PromptRequest ''hello'')) = Returns (Some ''Hello! How can I help?'')"
    by (simp add: sample_simps sample_chat_def)
  have b: "py_print sample_host
             [''AI RAW RESPONSE:'', '' '', py_strip ''Hello! How can I help?'', ''\<newline>''] = None"
    by (rule py_print_sample)
  have c: "json_loads sample_host (cleaned ''Hello! How can I help?'') = None"
    by (simp add: sample_simps cleaned_docs sample_loads_rejects_prose)
  from C8_invalid_json_reported [OF a b c] a b c show ?thesis
    by (simp add: cleaned_docs del: py_print.simps)
qed

text \<open>
  On the server whose standard output is encoded in ASCII, a completion that is prose
  with an accented letter: the debug line of line 99 cannot be encoded, and the request
  fails with the message of that exception, in which the accented letter of the cleaned
  text does not occur.
\<close>

theorem C8_counterexample:
  "chat_completion ascii_host (system_prompt (bootstrap_servers ascii_host) None)
     (the_prompt (PromptRequest ''bonjour'')) = Returns (Some french_prose) \<and>
   json_loads ascii_host (cleaned french_prose) = None \<and>
   CHR 0xE9 \<in> set (cleaned french_prose) \<and>
   kafka_agent ascii_host None (PromptRequest ''bonjour'') =
     (Raises (HTTPException 500 ([CHR 0x27] @ ''ascii'' @ [CHR 0x27] @ '' codec can'' @ [CHR 0x27]
        @ ''t encode character '' @ [CHR 0x27, CHR 0x5C] @ ''xe9'' @ [CHR 0x27]
        @ '' in position 1: ordinal not in range(128)'')), None) \<and>
   CHR 0xE9 \<notin> set ([CHR 0x27] @ ''ascii'' @ [CHR 0x27] @ '' codec can'' @ [CHR 0x27]
        @ ''t encode character '' @ [CHR 0x27, CHR 0x5C] @ ''xe9'' @ [CHR 0x27]
        @ '' in position 1: ordinal not in range(128)'')"
  by (simp add: ascii_simps sample_chat_def cleaned_docs sample_loads_rejects_prose
        ascii_requests french_prose_accent)

subsection \<open>Two requests at the same time\<close>



subsection \<open>The extractor and the invariant of the memory\<close>

text \<open>
  C7, as the code has it. The extractor returns nothing exactly when no position of the
  code starts a text of the shape: \<^verbatim>\<open>topic_name\<close>, white space, \<^verbatim>\<open>=\<close>, white space, a quote, one
  or more characters that are not quotes, a quote. It returns \<^verbatim>\<open>orders\<close> for a code that
  holds \<^verbatim>\<open>topic_name = "orders"\<close> when no text of that shape starts before it.
\<close>

theorem C7_extractor:
  "(extract_topic_from_code code = None \<longleftrightarrow> (\<forall>i lit. \<not> topic_assignment_at code i lit)) \<and>
   ((\<forall>j<length pre. \<forall>lit. \<not> topic_assignment_at (pre @ orders_assignment @ post) j lit) \<longrightarrow>
      extract_topic_from_code (pre @ orders_assignment @ post) = Some ''orders'')"
proof (intro conjI impI)
  show "extract_topic_from_code code = None \<longleftrightarrow> (\<forall>i lit. \<not> topic_assignment_at code i lit)"
    unfolding extract_topic_from_code_def by (rule topic_pattern_search_None)
next
  assume first: "\<forall>j<length pre. \<forall>lit. \<not> topic_assignment_at (pre @ orders_assignment @ post) j lit"
  have "topic_pattern_at (orders_assignment @ post) = Some ''orders''"
    by (simp add: topic_pattern_at_def orders_assignment_def py_isspace_def is_quote_def)
  then have "topic_assignment (orders_assignment @ post) ''orders''"
    by (simp add: topic_pattern_at_iff)
  then have "topic_assignment_at (pre @ orders_assignment @ post) (length pre) ''orders''"
    by (simp add: topic_assignment_at_def)
  with first show "extract_topic_from_code (pre @ orders_assignment @ post) = Some ''orders''"
    unfolding extract_topic_from_code_def topic_pattern_search_Some by blast
qed

text \<open>
  A code without the variable, and the assignment between two other lines.
\<close>

theorem C7_extractor_witness:
  "extract_topic_from_code ''print(1)'' = None \<and>
   extract_topic_from_code (''x = 1\<newline>'' @ orders_assignment @ ''\<newline>print(topic_name)'') =
     Some ''orders''"
proof -
  let ?code = "''x = 1\<newline>'' @ orders_assignment @ ''\<newline>print(topic_name)''"
  have "topic_pattern_at (drop j ?code) = None" if "j < 6" for j
  proof -
    from that have "j = 0 \<or> j = 1 \<or> j = 2 \<or> j = 3 \<or> j = 4 \<or> j = 5" by arith
    then show ?thesis
      by (elim disjE) (simp_all add: topic_pattern_at_def orders_assignment_def)
  qed
  then have "\<forall>j<6. \<forall>lit. \<not> topic_assignment_at ?code j lit"
    using no_assignment_at by blast
  moreover have "length ''x = 1\<newline>'' = 6" by simp
  ultimately have first:
    "\<forall>j<length ''x = 1\<newline>''. \<forall>lit. \<not> topic_assignment_at ?code j lit"
    by (simp only:)
  have "\<forall>i lit. \<not> topic_assignment_at ''print(1)'' i lit"
  proof (intro allI)
    fix i lit
    have "topic_pattern_search ''print(1)'' = None"
      by (simp add: topic_pattern_at_def)
    then show "\<not> topic_assignment_at ''print(1)'' i lit"
      unfolding topic_pattern_search_None by blast
  qed
  with C7_extractor [of "''print(1)''" "''x = 1\<newline>''" "''\<newline>print(topic_name)''"] first
  show ?thesis by blast
qed

text \<open>
  Two assignments: the first one wins, although the code holds \<^verbatim>\<open>topic_name = "orders"\<close>.
\<close>

theorem C7_counterexample:
  \<open>extract_topic_from_code (''topic_name = "payments"\<newline>'' @ orders_assignment @ []) =
     Some ''payments''\<close>
  by (simp add: extract_topic_from_code_def topic_pattern_at_def orders_assignment_def
        py_isspace_def is_quote_def)




end
